theory Spec2Isabelle
  imports Main "HOL-Library.Word"
begin

unbundle bit_operations_syntax

section \<open>OJNet wire protocol: packet codecs\<close>

text \<open>
  A shallow embedding of the Go package \<open>ojnet\<close>: the big-endian writers, the shared
  decode preamble \<open>checkPidAndLength\<close> and the \<open>Encode\<close>/\<open>Decode\<close> methods of the
  packet structs. Go's \<open>uint8\<close>, \<open>uint16\<close>, \<open>uint32\<close> and \<open>uint64\<close> are words of that
  width; Go's \<open>int\<close> (lengths, loop counters) is \<open>int\<close>, no length here comes near
  its 64-bit range.
\<close>

type_synonym byte = "8 word"
type_synonym uint16 = "16 word"
type_synonym uint32 = "32 word"
type_synonym uint64 = "64 word"

subsection \<open>The standard library, as far as the package calls it\<close>

text \<open>
  \<open>bytes.Buffer\<close>: only its unread bytes are observable through the calls the package
  makes (\<open>Len\<close>, \<open>ReadByte\<close>, \<open>ReadBytes\<close>, \<open>WriteByte\<close>, \<open>Write\<close>, \<open>Bytes\<close>), so the
  buffer is the list of its unread bytes: reading takes from the front, writing appends
  at the end. \<open>Grow\<close> reserves capacity only, and is left out.
\<close>

type_synonym Buffer = "byte list"

datatype io_error = EOF

text \<open>A run-time panic of Go: the only one these methods can reach is a slice index out of range.\<close>

datatype go_panic = IndexOutOfRange

definition NewBuffer :: "byte list \<Rightarrow> Buffer" where
  "NewBuffer data = data"

definition Len :: "Buffer \<Rightarrow> int" where
  "Len buf = int (length buf)"

definition WriteByte :: "Buffer \<Rightarrow> byte \<Rightarrow> Buffer" where
  "WriteByte buf c = buf @ [c]"

definition Write :: "Buffer \<Rightarrow> byte list \<Rightarrow> Buffer" where
  "Write buf p = buf @ p"

definition Bytes :: "Buffer \<Rightarrow> byte list" where
  "Bytes buf = buf"

text \<open>\<open>ReadByte\<close> returns the next byte; on an empty buffer it returns 0 and \<open>io.EOF\<close>.\<close>

definition ReadByte :: "Buffer \<Rightarrow> byte \<times> io_error option \<times> Buffer" where
  "ReadByte buf = (case buf of [] \<Rightarrow> (0, Some EOF, []) | c # cs \<Rightarrow> (c, None, cs))"

text \<open>
  \<open>ReadBytes(delim)\<close> takes a delimiter BYTE, not a count: it returns the unread bytes up to
  and including the first occurrence of \<open>delim\<close>; when \<open>delim\<close> does not occur it returns
  all the unread bytes together with \<open>io.EOF\<close> and leaves the buffer empty.
\<close>

definition ReadBytes :: "Buffer \<Rightarrow> byte \<Rightarrow> byte list \<times> io_error option \<times> Buffer" where
  "ReadBytes buf delim =
     (if delim \<in> set buf
      then (takeWhile (\<lambda>c. c \<noteq> delim) buf @ [delim], None, tl (dropWhile (\<lambda>c. c \<noteq> delim) buf))
      else (buf, Some EOF, []))"

text \<open>\<open>binary.BigEndian.PutUint16/32/64\<close> on a fresh slice of 2, 4 and 8 bytes.\<close>

definition PutUint16 :: "uint16 \<Rightarrow> byte list" where
  "PutUint16 v = [ucast (drop_bit 8 v), ucast v]"

definition PutUint32 :: "uint32 \<Rightarrow> byte list" where
  "PutUint32 v = [ucast (drop_bit 24 v), ucast (drop_bit 16 v), ucast (drop_bit 8 v), ucast v]"

definition PutUint64 :: "uint64 \<Rightarrow> byte list" where
  "PutUint64 v =
     [ucast (drop_bit 56 v), ucast (drop_bit 48 v), ucast (drop_bit 40 v), ucast (drop_bit 32 v),
      ucast (drop_bit 24 v), ucast (drop_bit 16 v), ucast (drop_bit 8 v), ucast v]"

text \<open>
  \<open>binary.BigEndian.Uint32\<close> and \<open>Uint64\<close> index the last byte they need first
  (\<open>_ = b[3]\<close>, \<open>_ = b[7]\<close>): a shorter slice panics with an index out of range; a
  longer one is read at its first 4 or 8 bytes.
\<close>

definition Uint32 :: "byte list \<Rightarrow> go_panic + uint32" where
  "Uint32 b =
     (if length b < 4 then Inl IndexOutOfRange
      else Inr (ucast (b ! 3) OR push_bit 8 (ucast (b ! 2)) OR push_bit 16 (ucast (b ! 1))
                OR push_bit 24 (ucast (b ! 0))))"

definition Uint64 :: "byte list \<Rightarrow> go_panic + uint64" where
  "Uint64 b =
     (if length b < 8 then Inl IndexOutOfRange
      else Inr (ucast (b ! 7) OR push_bit 8 (ucast (b ! 6)) OR push_bit 16 (ucast (b ! 5))
                OR push_bit 24 (ucast (b ! 4)) OR push_bit 32 (ucast (b ! 3))
                OR push_bit 40 (ucast (b ! 2)) OR push_bit 48 (ucast (b ! 1))
                OR push_bit 56 (ucast (b ! 0))))"

text \<open>\<open>strconv.Itoa\<close>: the decimal digits of an \<open>int\<close>, with a minus sign when negative.\<close>

fun digits :: "nat \<Rightarrow> string" where
  "digits n =
     (if n < 10 then [''0123456789'' ! n]
      else digits (n div 10) @ [''0123456789'' ! (n mod 10)])"

declare digits.simps [simp del]

definition Itoa :: "int \<Rightarrow> string" where
  "Itoa i = (if i < 0 then CHR ''-'' # digits (nat (- i)) else digits (nat i))"

subsection \<open>util: the big-endian writers\<close>

definition WriteUInt16 :: "Buffer \<Rightarrow> uint16 \<Rightarrow> Buffer" where
  "WriteUInt16 buffer val = Write buffer (PutUint16 val)"

definition WriteUInt32 :: "Buffer \<Rightarrow> uint32 \<Rightarrow> Buffer" where
  "WriteUInt32 buffer val = Write buffer (PutUint32 val)"

definition WriteUInt64 :: "Buffer \<Rightarrow> uint64 \<Rightarrow> Buffer" where
  "WriteUInt64 buffer val = Write buffer (PutUint64 val)"

subsection \<open>Errors, packet ids and lengths\<close>

datatype error = EncodeDecodeError (Reason: string)

type_synonym PacketID = "8 word"

text \<open>
  The first three ids are declared with \<open>iota\<close>, which starts at 0: they are 0, 1 and 2,
  whatever the comments over the structs say (\<open>ID: 0x01\<close>, \<open>ID 0x02\<close>, \<open>ID 0x03\<close>).
\<close>

definition ConnectionRequestPid :: PacketID where "ConnectionRequestPid = 0"
definition ConnectionAcceptedPid :: PacketID where "ConnectionAcceptedPid = 1"
definition ConnectionRejectedPid :: PacketID where "ConnectionRejectedPid = 2"
definition AcknowledgedPid :: PacketID where "AcknowledgedPid = 0x0A"
definition ChannelOperationPid :: PacketID where "ChannelOperationPid = 0x0B"
definition ContainerPid :: PacketID where "ContainerPid = 0x0C"

definition connectionRequestLength :: int where "connectionRequestLength = 10"
definition connectionAcceptedLength :: int where "connectionAcceptedLength = 9"
definition connectionRejectedLength :: int where "connectionRejectedLength = 2"
definition channelOperationLength :: int where "channelOperationLength = 3"
definition acknowledgedBaseLength :: int where "acknowledgedBaseLength = 6"
definition containerBaseLength :: int where "containerBaseLength = 4"

subsection \<open>checkPidAndLength\<close>

text \<open>The three reasons the preamble builds, as the source concatenates them.\<close>

definition lengthMismatch :: "int \<Rightarrow> error" where
  "lengthMismatch expectedLength =
     EncodeDecodeError (''Length of buffer mismatch (should be '' @ Itoa expectedLength @ '' bytes)'')"

definition lengthMismatchAtLeast :: "int \<Rightarrow> error" where
  "lengthMismatchAtLeast expectedLength =
     EncodeDecodeError
       (''Length of buffer mismatch (should be at least'' @ Itoa expectedLength @ '' bytes)'')"

definition idMismatch :: "PacketID \<Rightarrow> byte \<Rightarrow> error" where
  "idMismatch expectedId pid =
     EncodeDecodeError
       (''Packet ID Mismatch, should be '' @ Itoa (uint expectedId) @ '' (got '' @ Itoa (uint pid) @ '')'')"

text \<open>
  The buffer is passed by pointer: the function returns the error (\<open>None\<close> is \<open>nil\<close>)
  and the buffer as it leaves it (\<open>atLeast'\<close> is the source's \<open>atLeast\<close>, a name HOL
  has taken). The error of \<open>ReadByte\<close> is discarded, as in the source.
\<close>

definition checkPidAndLength :: "Buffer \<Rightarrow> PacketID \<Rightarrow> int \<Rightarrow> bool \<Rightarrow> error option \<times> Buffer" where
  "checkPidAndLength buf expectedId expectedLength atLeast' =
     (if \<not> atLeast' \<and> Len buf \<noteq> expectedLength then (Some (lengthMismatch expectedLength), buf)
      else if Len buf < expectedLength then (Some (lengthMismatchAtLeast expectedLength), buf)
      else
        (case ReadByte buf of (pid, _, buf') \<Rightarrow>
           if pid \<noteq> expectedId then (Some (idMismatch expectedId pid), buf')
           else (None, buf')))"

subsection \<open>The packets\<close>

text \<open>
  \<open>Encode\<close> returns \<open>([]byte, error)\<close>: \<open>Inr\<close> the bytes, \<open>Inl\<close> the error.
  \<open>Decode\<close> has a pointer receiver and returns an \<open>error\<close>: the model takes the
  receiver as it is before the call and returns the outcome together with the receiver
  as the call leaves it. The outcome is \<open>Inr None\<close> for \<open>nil\<close>, \<open>Inr (Some e)\<close>
  for a returned error and \<open>Inl p\<close> when the call panics; the receiver returned with a
  panic holds the assignments made before it.
\<close>

type_synonym decode_outcome = "go_panic + error option"

record ConnectionRequestPacket =
  ClientId :: uint64
  ProtocolVersion :: byte

definition ConnectionRequestPacket_Encode :: "ConnectionRequestPacket \<Rightarrow> error + byte list" where
  "ConnectionRequestPacket_Encode packet =
     (let buf = WriteByte [] ConnectionRequestPid;
          buf = WriteUInt64 buf (ClientId packet);
          buf = WriteByte buf (ProtocolVersion packet)
      in Inr (Bytes buf))"

definition ConnectionRequestPacket_Decode ::
  "ConnectionRequestPacket \<Rightarrow> byte list \<Rightarrow> decode_outcome \<times> ConnectionRequestPacket" where
  "ConnectionRequestPacket_Decode packet data =
     (case checkPidAndLength (NewBuffer data) ConnectionRequestPid connectionRequestLength False of
        (Some err, _) \<Rightarrow> (Inr (Some err), packet)
      | (None, buf) \<Rightarrow>
          (case ReadBytes buf 8 of (clientIdBytes, _, buf) \<Rightarrow>
             (case Uint64 clientIdBytes of
                Inl p \<Rightarrow> (Inl p, packet)
              | Inr v \<Rightarrow>
                  (case ReadByte buf of (pVer, _, buf) \<Rightarrow>
                     (Inr None, packet\<lparr>ClientId := v, ProtocolVersion := pVer\<rparr>)))))"

record ConnectionAcceptedPacket =
  ServerId :: uint64

definition ConnectionAcceptedPacket_Encode :: "ConnectionAcceptedPacket \<Rightarrow> error + byte list" where
  "ConnectionAcceptedPacket_Encode packet =
     (let buf = WriteByte [] ConnectionAcceptedPid;
          buf = WriteUInt64 buf (ServerId packet)
      in Inr (Bytes buf))"

definition ConnectionAcceptedPacket_Decode ::
  "ConnectionAcceptedPacket \<Rightarrow> byte list \<Rightarrow> decode_outcome \<times> ConnectionAcceptedPacket" where
  "ConnectionAcceptedPacket_Decode packet data =
     (case checkPidAndLength (NewBuffer data) ConnectionAcceptedPid connectionAcceptedLength False of
        (Some err, _) \<Rightarrow> (Inr (Some err), packet)
      | (None, buf) \<Rightarrow>
          (case ReadBytes buf 8 of (serverIdBytes, _, buf) \<Rightarrow>
             (case Uint64 serverIdBytes of
                Inl p \<Rightarrow> (Inl p, packet)
              | Inr v \<Rightarrow> (Inr None, packet\<lparr>ServerId := v\<rparr>))))"

text \<open>\<open>ConnectionRejectedReason\<close> is a \<open>uint8\<close>; so is \<open>ChannelOperation\<close> below.\<close>

type_synonym ConnectionRejectedReason = "8 word"

definition INCOMPATIBLE_PROTOCOL_VER :: ConnectionRejectedReason where "INCOMPATIBLE_PROTOCOL_VER = 0"
definition MAX_CONNECTIONS_REACHED :: ConnectionRejectedReason where "MAX_CONNECTIONS_REACHED = 1"
definition RATELIMITED :: ConnectionRejectedReason where "RATELIMITED = 2"

record ConnectionRejectedPacket =
  reason :: ConnectionRejectedReason

definition ConnectionRejectedPacket_Encode :: "ConnectionRejectedPacket \<Rightarrow> error + byte list" where
  "ConnectionRejectedPacket_Encode packet =
     (let buf = WriteByte [] ConnectionRejectedPid;
          buf = WriteByte buf (reason packet)
      in Inr (Bytes buf))"

definition ConnectionRejectedPacket_Decode ::
  "ConnectionRejectedPacket \<Rightarrow> byte list \<Rightarrow> decode_outcome \<times> ConnectionRejectedPacket" where
  "ConnectionRejectedPacket_Decode packet data =
     (case checkPidAndLength (NewBuffer data) ConnectionRejectedPid connectionRejectedLength False of
        (Some err, _) \<Rightarrow> (Inr (Some err), packet)
      | (None, buf) \<Rightarrow>
          (case ReadByte buf of (reason', _, buf) \<Rightarrow> (Inr None, packet\<lparr>reason := reason'\<rparr>)))"

record AcknowledgePacket =
  sequenceIds :: "uint32 list"

text \<open>The \<open>range\<close> loop of \<open>Encode\<close>: one \<open>WriteUInt32\<close> for each id, in order.\<close>

fun writeSequenceIds :: "Buffer \<Rightarrow> uint32 list \<Rightarrow> Buffer" where
  "writeSequenceIds buf [] = buf"
| "writeSequenceIds buf (id' # ids) = writeSequenceIds (WriteUInt32 buf id') ids"

text \<open>\<open>byte(len(packet.sequenceIds))\<close> keeps the low eight bits of the length.\<close>

definition AcknowledgePacket_Encode :: "AcknowledgePacket \<Rightarrow> error + byte list" where
  "AcknowledgePacket_Encode packet =
     (if length (sequenceIds packet) < 1 then Inl (EncodeDecodeError ''sequenceIds array is empty!'')
      else
        (let buf = WriteByte [] AcknowledgedPid;
             buf = WriteByte buf (of_nat (length (sequenceIds packet)));
             buf = writeSequenceIds buf (sequenceIds packet)
         in Inr (Bytes buf)))"

text \<open>
  The \<open>for i := 0; i < int(sequenceCount); i++\<close> loop of \<open>Decode\<close>, over the buffer and
  the slice \<open>packet.sequenceIds\<close> (\<open>ids\<close>); \<open>i\<close> stays below the slice's length, which is
  \<open>sequenceCount\<close>. A panic of \<open>Uint32\<close> leaves the loop with the slice as filled so far.
\<close>

function readSequenceIds :: "nat \<Rightarrow> nat \<Rightarrow> Buffer \<Rightarrow> uint32 list \<Rightarrow> go_panic option \<times> uint32 list" where
  "readSequenceIds i sequenceCount buf ids =
     (if i < sequenceCount then
        (case ReadBytes buf 4 of (sequenceBytes, _, buf') \<Rightarrow>
           (case Uint32 sequenceBytes of
              Inl p \<Rightarrow> (Some p, ids)
            | Inr v \<Rightarrow> readSequenceIds (Suc i) sequenceCount buf' (ids[i := v])))
      else (None, ids))"
  by pat_completeness auto
termination
  by (relation "measure (\<lambda>(i, sequenceCount, buf, ids). sequenceCount - i)") auto

declare readSequenceIds.simps [simp del]

definition AcknowledgePacket_Decode ::
  "AcknowledgePacket \<Rightarrow> byte list \<Rightarrow> decode_outcome \<times> AcknowledgePacket" where
  "AcknowledgePacket_Decode packet data =
     (case checkPidAndLength (NewBuffer data) AcknowledgedPid acknowledgedBaseLength True of
        (Some err, _) \<Rightarrow> (Inr (Some err), packet)
      | (None, buf) \<Rightarrow>
          (case ReadByte buf of (sequenceCount, _, buf) \<Rightarrow>
             if sequenceCount < 1 then (Inr None, packet)
             else
               (case readSequenceIds 0 (unat sequenceCount) buf (replicate (unat sequenceCount) 0) of
                  (Some p, ids) \<Rightarrow> (Inl p, packet\<lparr>sequenceIds := ids\<rparr>)
                | (None, ids) \<Rightarrow> (Inr None, packet\<lparr>sequenceIds := ids\<rparr>))))"

type_synonym ChannelOperation = "8 word"

definition OPEN_CHANNEL :: ChannelOperation where "OPEN_CHANNEL = 0"
definition CLOSE_CHANNEL :: ChannelOperation where "CLOSE_CHANNEL = 1"
definition RESET_ORDERED_IDS :: ChannelOperation where "RESET_ORDERED_IDS = 2"

record ChannelOpPacket =
  operation :: ChannelOperation
  channel :: byte

text \<open>\<open>Encode\<close> writes the id and the channel, and nothing for \<open>operation\<close>; \<open>Decode\<close>
  asks for \<open>channelOperationLength\<close> bytes and reads the channel from the second.\<close>

definition ChannelOpPacket_Encode :: "ChannelOpPacket \<Rightarrow> error + byte list" where
  "ChannelOpPacket_Encode packet =
     (let buf = WriteByte [] ChannelOperationPid;
          buf = WriteByte buf (channel packet)
      in Inr (Bytes buf))"

definition ChannelOpPacket_Decode ::
  "ChannelOpPacket \<Rightarrow> byte list \<Rightarrow> decode_outcome \<times> ChannelOpPacket" where
  "ChannelOpPacket_Decode packet data =
     (case checkPidAndLength (NewBuffer data) ChannelOperationPid channelOperationLength False of
        (Some err, _) \<Rightarrow> (Inr (Some err), packet)
      | (None, buf) \<Rightarrow>
          (case ReadByte buf of (channel', _, buf) \<Rightarrow> (Inr None, packet\<lparr>channel := channel'\<rparr>)))"

text \<open>
  \<open>ContainerPacket\<close> is declared in the source as a struct only, with the layout in its
  comments: the three flags share one byte, \<open>sequenceId\<close> is present only if \<open>reliable\<close>,
  \<open>orderedId\<close> only if \<open>ordered\<close>, and the payload is prefixed by its length as a \<open>uint16\<close>.
\<close>

record ContainerPacket =
  channel :: byte
  reliable :: bool
  ordered :: bool
  compressed :: bool
  sequenceId :: uint32
  orderedId :: uint16
  payload :: "byte list"

subsection \<open>The Container codec\<close>

text \<open>
  The source declares no \<open>Encode\<close> and no \<open>Decode\<close> for \<open>ContainerPacket\<close>; what follows
  is the codec as the specification words it, over the struct, the id \<open>ContainerPid\<close> and
  the preamble \<open>checkPidAndLength\<close> of the source.
\<close>

text \<open>Modelled from the spec: the flags byte of the absent Container codec, bit 0 = reliable,
  bit 1 = ordered, bit 2 = compressed.\<close>

definition flagsByte :: "bool \<Rightarrow> bool \<Rightarrow> bool \<Rightarrow> byte" where
  "flagsByte rel ord cmp = (if rel then 1 else 0) OR (if ord then 2 else 0) OR (if cmp then 4 else 0)"

text \<open>Modelled from the spec: the total length of a Container, absent from the source:
  1 (id) + 1 (channel) + 1 (flags) + 4 if reliable + 2 if ordered + 2 (length prefix) + the
  payload's length.\<close>

definition containerLength :: "bool \<Rightarrow> bool \<Rightarrow> nat \<Rightarrow> int" where
  "containerLength rel ord n = 1 + 1 + 1 + (if rel then 4 else 0) + (if ord then 2 else 0) + 2 + int n"

text \<open>Modelled from the spec: the big-endian read of a 16-bit field, for the absent
  Container decoder (multi-byte integers are always big-endian).\<close>

definition beUint16 :: "byte list \<Rightarrow> uint16" where
  "beUint16 b = ucast (b ! 1) OR push_bit 8 (ucast (b ! 0))"

text \<open>Modelled from the spec: the big-endian read of a 32-bit field, for the absent
  Container decoder.\<close>

definition beUint32 :: "byte list \<Rightarrow> uint32" where
  "beUint32 b = ucast (b ! 3) OR push_bit 8 (ucast (b ! 2)) OR push_bit 16 (ucast (b ! 1))
                OR push_bit 24 (ucast (b ! 0))"

text \<open>Modelled from the spec: the payload bytes that the absent Container encoder
  length-prefixes. Compression, if \<open>compressed\<close> is set, is applied to the payload by an
  external collaborator before length-prefixing; the collaborator is the parameter
  \<open>compress\<close>, a function from bytes to bytes supplied from outside.\<close>

definition wirePayload :: "(byte list \<Rightarrow> byte list) \<Rightarrow> ContainerPacket \<Rightarrow> byte list" where
  "wirePayload compress packet =
     (if compressed packet then compress (payload packet) else payload packet)"

text \<open>Modelled from the spec: the absent \<open>ContainerPacket.Encode\<close>. The id first, then the
  channel, the flags byte, \<open>sequence_id\<close> iff reliable, \<open>ordered_id\<close> iff ordered, then the
  \<open>u16\<close> length prefix of the payload as compressed by the collaborator when \<open>compressed\<close> is
  set, and those payload bytes. It has no failure.\<close>

definition ContainerPacket_Encode ::
  "(byte list \<Rightarrow> byte list) \<Rightarrow> ContainerPacket \<Rightarrow> error + byte list" where
  "ContainerPacket_Encode compress packet =
     (let buf = WriteByte [] ContainerPid;
          buf = WriteByte buf (ContainerPacket.channel packet);
          buf = WriteByte buf (flagsByte (reliable packet) (ordered packet) (compressed packet));
          buf = (if reliable packet then WriteUInt32 buf (sequenceId packet) else buf);
          buf = (if ordered packet then WriteUInt16 buf (orderedId packet) else buf);
          body = wirePayload compress packet;
          buf = WriteUInt16 buf (of_nat (length body));
          buf = Write buf body
      in Inr (Bytes buf))"

text \<open>Modelled from the spec: the absent Container decoder, returning a fresh packet or an
  error. The preamble validates the id and the minimum length (\<open>containerBaseLength\<close>, so
  that channel and flags are there); the flags byte decides which fields are read, the
  length is validated again for the header those flags announce, and once more for the
  payload length the prefix declares; a field whose flag is off is 0. When \<open>compressed\<close>
  is set the payload bytes are decompressed by the collaborator, the parameter
  \<open>decompress\<close>, before the packet is returned.\<close>

definition ContainerPacket_Decode ::
  "(byte list \<Rightarrow> byte list) \<Rightarrow> byte list \<Rightarrow> error + ContainerPacket" where
  "ContainerPacket_Decode decompress data =
     (case checkPidAndLength (NewBuffer data) ContainerPid containerBaseLength True of
        (Some err, _) \<Rightarrow> Inl err
      | (None, buf) \<Rightarrow>
          (let channel' = buf ! 0; flags = buf ! 1;
               rel = bit flags 0; ord = bit flags 1; cmp = bit flags 2
           in if Len data < containerLength rel ord 0
              then Inl (lengthMismatchAtLeast (containerLength rel ord 0))
              else
                (let buf = drop 2 buf;
                     seq = (if rel then beUint32 (take 4 buf) else 0);
                     buf = (if rel then drop 4 buf else buf);
                     oid = (if ord then beUint16 (take 2 buf) else 0);
                     buf = (if ord then drop 2 buf else buf);
                     n = unat (beUint16 (take 2 buf));
                     buf = drop 2 buf
                 in if Len data < containerLength rel ord n
                    then Inl (lengthMismatchAtLeast (containerLength rel ord n))
                    else
                      (let body = take n buf
                       in Inr \<lparr>ContainerPacket.channel = channel', reliable = rel, ordered = ord,
                                 compressed = cmp, sequenceId = seq, orderedId = oid,
                                 payload = (if cmp then decompress body else body)\<rparr>))))"

section \<open>Properties\<close>

subsection \<open>Auxiliary facts\<close>


lemma ReadByte_Cons: "ReadByte (c # cs) = (c, None, cs)"
  by (simp add: ReadByte_def)



lemma checkPidAndLength_short_atLeast:
  "al \<Longrightarrow> Len buf < n \<Longrightarrow> checkPidAndLength buf e n al = (Some (lengthMismatchAtLeast n), buf)"
  by (simp add: checkPidAndLength_def)

lemma checkPidAndLength_pass:
  assumes "if al then n \<le> Len (c # cs) else Len (c # cs) = n"
  shows "checkPidAndLength (c # cs) e n al = (if c \<noteq> e then Some (idMismatch e c) else None, cs)"
  using assms by (auto simp add: checkPidAndLength_def ReadByte_Cons split: if_splits)

lemma checkPidAndLength_wrong_id:
  assumes "if al then n \<le> Len buf else Len buf = n" and "buf \<noteq> []" and "hd buf \<noteq> e"
  shows "checkPidAndLength buf e n al = (Some (idMismatch e (hd buf)), tl buf)"
  using assms by (cases buf) (auto simp add: checkPidAndLength_def ReadByte_Cons split: if_splits)

lemma writeSequenceIds_concat: "writeSequenceIds buf ids = buf @ concat (map PutUint32 ids)"
  by (induction ids arbitrary: buf) (simp_all add: WriteUInt32_def Write_def)

lemma length_PutUint32: "length (PutUint32 v) = 4"
  by (simp add: PutUint32_def)

lemma length_concat_PutUint32: "length (concat (map PutUint32 ids)) = 4 * length ids"
  by (induction ids) (simp_all add: length_PutUint32)

lemma hd_wrong_id:
  assumes "if al then n \<le> Len data else Len data = n" and "1 \<le> n" and "hd data \<noteq> e"
  shows "checkPidAndLength (NewBuffer data) e n al = (Some (idMismatch e (hd data)), tl data)"
proof -
  from assms(1,2) have "1 \<le> Len data" by (auto split: if_splits)
  then have ne: "data \<noteq> []" by (auto simp add: Len_def)
  show ?thesis
    using checkPidAndLength_wrong_id [OF assms(1) ne assms(3)] by (simp add: NewBuffer_def)
qed

lemmas pid_defs = ConnectionRequestPid_def ConnectionAcceptedPid_def ConnectionRejectedPid_def
  AcknowledgedPid_def ChannelOperationPid_def
lemmas length_defs = connectionRequestLength_def connectionAcceptedLength_def
  connectionRejectedLength_def acknowledgedBaseLength_def channelOperationLength_def

lemma beUint16_PutUint16: "beUint16 (PutUint16 v) = v"
  unfolding beUint16_def PutUint16_def
  by (rule bit_word_eqI) (auto simp add: bit_simps)

lemma beUint32_PutUint32: "beUint32 (PutUint32 v) = v"
  unfolding beUint32_def PutUint32_def
proof (rule bit_word_eqI)
  fix n assume "n < LENGTH(32)"
  then have n: "n < 32" by simp
  consider "n < 8" | "8 \<le> n" "n < 16" | "16 \<le> n" "n < 24" | "24 \<le> n" "n < 32"
    using n by linarith
  then show "bit (ucast ([ucast (drop_bit 24 v), ucast (drop_bit 16 v), ucast (drop_bit 8 v), ucast v :: byte] ! 3) OR
        push_bit 8 (ucast ([ucast (drop_bit 24 v), ucast (drop_bit 16 v), ucast (drop_bit 8 v), ucast v :: byte] ! 2)) OR
        push_bit 16 (ucast ([ucast (drop_bit 24 v), ucast (drop_bit 16 v), ucast (drop_bit 8 v), ucast v :: byte] ! 1)) OR
        push_bit 24 (ucast ([ucast (drop_bit 24 v), ucast (drop_bit 16 v), ucast (drop_bit 8 v), ucast v :: byte] ! 0)) :: uint32) n = bit v n"
    by cases (auto simp add: bit_simps)
qed


lemma flagsByte_bits:
  "bit (flagsByte r q c) 0 = r" "bit (flagsByte r q c) (Suc 0) = q" "bit (flagsByte r q c) 2 = c"
  by (auto simp add: flagsByte_def bit_simps)

lemma unat_of_nat_le: "unat (of_nat n :: uint16) \<le> n"
  by (simp add: unat_of_nat)

lemma unat_of_nat_small: "n < 65536 \<Longrightarrow> unat (of_nat n :: uint16) = n"
  by (simp add: unat_of_nat)

lemma length_PutUint16: "length (PutUint16 v) = 2"
  by (simp add: PutUint16_def)

lemma ContainerPacket_Encode_layout:
  "ContainerPacket_Encode compress p =
     Inr (ContainerPid # ContainerPacket.channel p # flagsByte (reliable p) (ordered p) (compressed p) #
          (if reliable p then PutUint32 (sequenceId p) else []) @
          (if ordered p then PutUint16 (orderedId p) else []) @
          PutUint16 (of_nat (length (wirePayload compress p))) @ wirePayload compress p)"
  by (simp add: ContainerPacket_Encode_def Let_def WriteByte_def WriteUInt32_def WriteUInt16_def
        Write_def Bytes_def)

lemma ContainerPacket_Decode_layout:
  fixes sq :: "byte list" and oq :: "byte list"
  assumes "length sq = (if r then 4 else 0)" and "length oq = (if q then 2 else 0)"
  shows "ContainerPacket_Decode decompress
           (ContainerPid # ch # flagsByte r q c # sq @ oq @ PutUint16 (of_nat (length pl)) @ pl) =
         Inr \<lparr>ContainerPacket.channel = ch, reliable = r, ordered = q, compressed = c,
              sequenceId = (if r then beUint32 sq else 0), orderedId = (if q then beUint16 oq else 0),
              payload = (if c then decompress (take (unat (of_nat (length pl) :: uint16)) pl)
                         else take (unat (of_nat (length pl) :: uint16)) pl)\<rparr>"
proof -
  let ?rest = "ch # flagsByte r q c # sq @ oq @ PutUint16 (of_nat (length pl)) @ pl"
  have chk: "checkPidAndLength (NewBuffer (ContainerPid # ?rest)) ContainerPid containerBaseLength True =
      (None, ?rest)"
    unfolding NewBuffer_def
    by (subst checkPidAndLength_pass) (simp_all add: Len_def containerBaseLength_def length_PutUint16)
  show ?thesis
    using assms unat_of_nat_le [of "length pl"]
    unfolding ContainerPacket_Decode_def chk
    by (cases r; cases q)
       (simp_all add: Let_def flagsByte_bits containerLength_def Len_def length_PutUint16
          beUint16_PutUint16)
qed

lemmas Encode_defs = ConnectionRequestPacket_Encode_def ConnectionAcceptedPacket_Encode_def
  ConnectionRejectedPacket_Encode_def ChannelOpPacket_Encode_def
  WriteByte_def WriteUInt64_def Write_def Bytes_def

subsection \<open>When Encode fails\<close>

text \<open>
  C7. \<open>AcknowledgePacket.Encode\<close> returns an error exactly when the list of sequence ids
  is empty, and the error is the \<open>EncodeDecodeError\<close> with the reason
  \<open>sequenceIds array is empty!\<close>; the \<open>Encode\<close> of ConnectionRequest, ConnectionAccepted,
  ConnectionRejected and ChannelOp returns bytes for every value of the fields.
\<close>

theorem Encode_fails_iff_empty_ack:
  "isl (AcknowledgePacket_Encode a) = (sequenceIds a = []) \<and>
   (sequenceIds a = [] \<longrightarrow>
      AcknowledgePacket_Encode a = Inl (EncodeDecodeError ''sequenceIds array is empty!'')) \<and>
   \<not> isl (ConnectionRequestPacket_Encode rq) \<and>
   \<not> isl (ConnectionAcceptedPacket_Encode ac) \<and>
   \<not> isl (ConnectionRejectedPacket_Encode rj) \<and>
   \<not> isl (ChannelOpPacket_Encode co)"
  by (cases "sequenceIds a") (simp_all add: AcknowledgePacket_Encode_def Encode_defs Let_def)

theorem Encode_fails_iff_empty_ack_witness:
  "isl (AcknowledgePacket_Encode \<lparr>sequenceIds = []\<rparr>) \<and>
   AcknowledgePacket_Encode \<lparr>sequenceIds = []\<rparr> = Inl (EncodeDecodeError ''sequenceIds array is empty!'') \<and>
   \<not> isl (AcknowledgePacket_Encode \<lparr>sequenceIds = [7, 99]\<rparr>) \<and>
   \<not> isl (ConnectionRequestPacket_Encode \<lparr>ClientId = 42, ProtocolVersion = 0\<rparr>)"
  using Encode_fails_iff_empty_ack [of "\<lparr>sequenceIds = []\<rparr>" "\<lparr>ClientId = 42, ProtocolVersion = 0\<rparr>"]
    Encode_fails_iff_empty_ack [of "\<lparr>sequenceIds = [7, 99]\<rparr>"]
  by simp

subsection \<open>More than 255 sequence ids\<close>

text \<open>
  C10. \<open>AcknowledgePacket.Encode\<close> has no check of the 255-id maximum: given \<open>n > 255\<close>
  sequence ids it returns bytes, namely the id byte, the count byte \<open>n mod 256\<close> and all
  \<open>n\<close> ids at four bytes each, so that the count byte differs from the number of ids that
  follow it.
\<close>

theorem AcknowledgePacket_Encode_over_255:
  assumes "255 < length (sequenceIds a)"
  shows "AcknowledgePacket_Encode a =
           Inr (AcknowledgedPid # of_nat (length (sequenceIds a)) # concat (map PutUint32 (sequenceIds a))) \<and>
         length (concat (map PutUint32 (sequenceIds a))) = 4 * length (sequenceIds a) \<and>
         unat (of_nat (length (sequenceIds a)) :: byte) = length (sequenceIds a) mod 256 \<and>
         unat (of_nat (length (sequenceIds a)) :: byte) \<noteq> length (sequenceIds a)"
proof -
  have enc: "AcknowledgePacket_Encode a =
      Inr (AcknowledgedPid # of_nat (length (sequenceIds a)) # concat (map PutUint32 (sequenceIds a)))"
  proof -
    from assms have "sequenceIds a \<noteq> []" by auto
    then show ?thesis
      by (simp add: AcknowledgePacket_Encode_def Let_def WriteByte_def Bytes_def writeSequenceIds_concat)
  qed
  have cnt: "unat (of_nat (length (sequenceIds a)) :: byte) = length (sequenceIds a) mod 256"
    by (simp add: unat_of_nat)
  have "length (sequenceIds a) mod 256 < 256" by simp
  with assms cnt have "unat (of_nat (length (sequenceIds a)) :: byte) \<noteq> length (sequenceIds a)"
    by linarith
  with enc cnt show ?thesis by (simp add: length_concat_PutUint32)
qed

theorem AcknowledgePacket_Encode_over_255_witness:
  "AcknowledgePacket_Encode \<lparr>sequenceIds = replicate 256 7\<rparr> =
     Inr (AcknowledgedPid # 0 # concat (map PutUint32 (replicate 256 7))) \<and>
   unat (0 :: byte) \<noteq> length (replicate 256 (7 :: uint32))"
  using AcknowledgePacket_Encode_over_255 [of "\<lparr>sequenceIds = replicate 256 7\<rparr>"]
  by simp

subsection \<open>The decode preamble\<close>




subsection \<open>A wrong id leaves the receiver alone\<close>

text \<open>
  C9. For each of the five packets with a \<open>Decode\<close>, a buffer of the right length
  (exactly the packet's length; at least \<open>acknowledgedBaseLength\<close> for Acknowledge) whose
  first byte is not the packet's id makes \<open>Decode\<close> return the id-mismatch error, naming
  the expected id and the byte found, with every field of the receiver as it was.
\<close>

theorem Decode_id_mismatch_leaves_packet:
  "(Len data = connectionRequestLength \<and> hd data \<noteq> ConnectionRequestPid \<longrightarrow>
      ConnectionRequestPacket_Decode rq data =
        (Inr (Some (idMismatch ConnectionRequestPid (hd data))), rq)) \<and>
   (Len data = connectionAcceptedLength \<and> hd data \<noteq> ConnectionAcceptedPid \<longrightarrow>
      ConnectionAcceptedPacket_Decode ac data =
        (Inr (Some (idMismatch ConnectionAcceptedPid (hd data))), ac)) \<and>
   (Len data = connectionRejectedLength \<and> hd data \<noteq> ConnectionRejectedPid \<longrightarrow>
      ConnectionRejectedPacket_Decode rj data =
        (Inr (Some (idMismatch ConnectionRejectedPid (hd data))), rj)) \<and>
   (acknowledgedBaseLength \<le> Len data \<and> hd data \<noteq> AcknowledgedPid \<longrightarrow>
      AcknowledgePacket_Decode ak data =
        (Inr (Some (idMismatch AcknowledgedPid (hd data))), ak)) \<and>
   (Len data = channelOperationLength \<and> hd data \<noteq> ChannelOperationPid \<longrightarrow>
      ChannelOpPacket_Decode co data =
        (Inr (Some (idMismatch ChannelOperationPid (hd data))), co))"
proof (intro conjI impI)
  assume "Len data = connectionRequestLength \<and> hd data \<noteq> ConnectionRequestPid"
  then have "checkPidAndLength (NewBuffer data) ConnectionRequestPid connectionRequestLength False =
      (Some (idMismatch ConnectionRequestPid (hd data)), tl data)"
    by (intro hd_wrong_id) (simp_all add: connectionRequestLength_def)
  then show "ConnectionRequestPacket_Decode rq data =
      (Inr (Some (idMismatch ConnectionRequestPid (hd data))), rq)"
    by (simp add: ConnectionRequestPacket_Decode_def)
next
  assume "Len data = connectionAcceptedLength \<and> hd data \<noteq> ConnectionAcceptedPid"
  then have "checkPidAndLength (NewBuffer data) ConnectionAcceptedPid connectionAcceptedLength False =
      (Some (idMismatch ConnectionAcceptedPid (hd data)), tl data)"
    by (intro hd_wrong_id) (simp_all add: connectionAcceptedLength_def)
  then show "ConnectionAcceptedPacket_Decode ac data =
      (Inr (Some (idMismatch ConnectionAcceptedPid (hd data))), ac)"
    by (simp add: ConnectionAcceptedPacket_Decode_def)
next
  assume "Len data = connectionRejectedLength \<and> hd data \<noteq> ConnectionRejectedPid"
  then have "checkPidAndLength (NewBuffer data) ConnectionRejectedPid connectionRejectedLength False =
      (Some (idMismatch ConnectionRejectedPid (hd data)), tl data)"
    by (intro hd_wrong_id) (simp_all add: connectionRejectedLength_def)
  then show "ConnectionRejectedPacket_Decode rj data =
      (Inr (Some (idMismatch ConnectionRejectedPid (hd data))), rj)"
    by (simp add: ConnectionRejectedPacket_Decode_def)
next
  assume "acknowledgedBaseLength \<le> Len data \<and> hd data \<noteq> AcknowledgedPid"
  then have "checkPidAndLength (NewBuffer data) AcknowledgedPid acknowledgedBaseLength True =
      (Some (idMismatch AcknowledgedPid (hd data)), tl data)"
    by (intro hd_wrong_id) (simp_all add: acknowledgedBaseLength_def)
  then show "AcknowledgePacket_Decode ak data =
      (Inr (Some (idMismatch AcknowledgedPid (hd data))), ak)"
    by (simp add: AcknowledgePacket_Decode_def)
next
  assume "Len data = channelOperationLength \<and> hd data \<noteq> ChannelOperationPid"
  then have "checkPidAndLength (NewBuffer data) ChannelOperationPid channelOperationLength False =
      (Some (idMismatch ChannelOperationPid (hd data)), tl data)"
    by (intro hd_wrong_id) (simp_all add: channelOperationLength_def)
  then show "ChannelOpPacket_Decode co data =
      (Inr (Some (idMismatch ChannelOperationPid (hd data))), co)"
    by (simp add: ChannelOpPacket_Decode_def)
qed

theorem Decode_id_mismatch_leaves_packet_witness:
  "ConnectionRequestPacket_Decode \<lparr>ClientId = 5, ProtocolVersion = 6\<rparr> [9, 0, 0, 0, 0, 0, 0, 0, 42, 0] =
     (Inr (Some (idMismatch ConnectionRequestPid 9)), \<lparr>ClientId = 5, ProtocolVersion = 6\<rparr>) \<and>
   ConnectionAcceptedPacket_Decode \<lparr>ServerId = 5\<rparr> [9, 0, 0, 0, 0, 0, 0, 0, 42] =
     (Inr (Some (idMismatch ConnectionAcceptedPid 9)), \<lparr>ServerId = 5\<rparr>) \<and>
   ConnectionRejectedPacket_Decode \<lparr>reason = 1\<rparr> [9, 0] =
     (Inr (Some (idMismatch ConnectionRejectedPid 9)), \<lparr>reason = 1\<rparr>) \<and>
   AcknowledgePacket_Decode \<lparr>sequenceIds = [3]\<rparr> [9, 1, 0, 0, 0, 7] =
     (Inr (Some (idMismatch AcknowledgedPid 9)), \<lparr>sequenceIds = [3]\<rparr>) \<and>
   ChannelOpPacket_Decode \<lparr>operation = 1, ChannelOpPacket.channel = 2\<rparr> [9, 0, 0] =
     (Inr (Some (idMismatch ChannelOperationPid 9)), \<lparr>operation = 1, ChannelOpPacket.channel = 2\<rparr>)"
  using Decode_id_mismatch_leaves_packet [of "[9, 0, 0, 0, 0, 0, 0, 0, 42, 0]" "\<lparr>ClientId = 5, ProtocolVersion = 6\<rparr>"]
    Decode_id_mismatch_leaves_packet [of "[9, 0, 0, 0, 0, 0, 0, 0, 42]" _ "\<lparr>ServerId = 5\<rparr>"]
    Decode_id_mismatch_leaves_packet [of "[9, 0]" _ _ "\<lparr>reason = 1\<rparr>"]
    Decode_id_mismatch_leaves_packet [of "[9, 1, 0, 0, 0, 7]" _ _ _ "\<lparr>sequenceIds = [3]\<rparr>"]
    Decode_id_mismatch_leaves_packet [of "[9, 0, 0]" _ _ _ _ "\<lparr>operation = 1, ChannelOpPacket.channel = 2\<rparr>"]
  by (simp add: Len_def pid_defs length_defs)

subsection \<open>Acknowledge with no ids\<close>

text \<open>
  C4 as stated fails on the two-byte buffer: \<open>Decode\<close> asks for at least
  \<open>acknowledgedBaseLength\<close> = 6 bytes before it looks at the count, so \<open>[0x0A, 0x00]\<close> is
  refused with the length error and the count byte is never read.
\<close>

theorem AcknowledgePacket_Decode_count_zero_two_bytes:
  "AcknowledgePacket_Decode \<lparr>sequenceIds = []\<rparr> [0x0A, 0x00] =
     (Inr (Some (EncodeDecodeError ''Length of buffer mismatch (should be at least6 bytes)'')),
      \<lparr>sequenceIds = []\<rparr>)"
  by code_simp

text \<open>
  C4 (amended). \<open>Encode\<close> of an Acknowledge with no sequence ids returns an error.
  \<open>Decode\<close> of \<open>[0x0A, 0x00]\<close> returns the at-least length error and leaves the receiver
  as it was. \<open>Decode\<close> of a buffer of at least six bytes that starts with the id \<open>0x0A\<close>
  and the count byte 0 returns \<open>nil\<close> and leaves the receiver's sequence ids as they were
  (empty in a fresh packet), whatever bytes follow.
\<close>

theorem AcknowledgePacket_empty_asymmetry:
  "AcknowledgePacket_Encode \<lparr>sequenceIds = []\<rparr> = Inl (EncodeDecodeError ''sequenceIds array is empty!'') \<and>
   AcknowledgePacket_Decode ak [0x0A, 0x00] = (Inr (Some (lengthMismatchAtLeast acknowledgedBaseLength)), ak) \<and>
   (acknowledgedBaseLength \<le> Len (0x0A # 0x00 # rest) \<longrightarrow>
      AcknowledgePacket_Decode ak (0x0A # 0x00 # rest) = (Inr None, ak))"
proof (intro conjI impI)
  show "AcknowledgePacket_Encode \<lparr>sequenceIds = []\<rparr> = Inl (EncodeDecodeError ''sequenceIds array is empty!'')"
    by (simp add: AcknowledgePacket_Encode_def)
next
  have "checkPidAndLength (NewBuffer [0x0A, 0x00]) AcknowledgedPid acknowledgedBaseLength True =
      (Some (lengthMismatchAtLeast acknowledgedBaseLength), [0x0A, 0x00])"
    unfolding NewBuffer_def
    by (rule checkPidAndLength_short_atLeast) (simp_all add: Len_def acknowledgedBaseLength_def)
  then show "AcknowledgePacket_Decode ak [0x0A, 0x00] =
      (Inr (Some (lengthMismatchAtLeast acknowledgedBaseLength)), ak)"
    by (simp add: AcknowledgePacket_Decode_def)
next
  assume "acknowledgedBaseLength \<le> Len (0x0A # 0x00 # rest)"
  then have "checkPidAndLength (0x0A # 0x00 # rest) AcknowledgedPid acknowledgedBaseLength True =
      (if (0x0A :: byte) \<noteq> AcknowledgedPid then Some (idMismatch AcknowledgedPid 0x0A) else None, 0x00 # rest)"
    by (intro checkPidAndLength_pass) simp
  then show "AcknowledgePacket_Decode ak (0x0A # 0x00 # rest) = (Inr None, ak)"
    by (simp add: AcknowledgePacket_Decode_def NewBuffer_def AcknowledgedPid_def ReadByte_Cons)
qed

theorem AcknowledgePacket_empty_asymmetry_witness:
  "AcknowledgePacket_Decode \<lparr>sequenceIds = [3, 4]\<rparr> [0x0A, 0x00, 1, 2, 3, 4] =
     (Inr None, \<lparr>sequenceIds = [3, 4]\<rparr>)"
  using AcknowledgePacket_empty_asymmetry [of "\<lparr>sequenceIds = [3, 4]\<rparr>" "[1, 2, 3, 4]"]
  by (simp add: Len_def acknowledgedBaseLength_def)

subsection \<open>Where the code departs from what is asked of it\<close>

text \<open>
  C1, on the code: \<open>Decode\<close> can panic. \<open>ReadBytes(4)\<close> and \<open>ReadBytes(8)\<close> read up to a
  byte of value 4 or 8, not four or eight bytes, their errors are dropped, and
  \<open>Uint32\<close>/\<open>Uint64\<close> panic on the short slice that results. An Acknowledge that declares
  two ids and holds one panics in the second round of the loop, with the receiver
  half filled; a ConnectionRequest whose client id starts with the byte 8 panics too.
\<close>

theorem Decode_panics_on_short_ids:
  "AcknowledgePacket_Decode \<lparr>sequenceIds = []\<rparr> [0x0A, 2, 0, 0, 0, 7] =
     (Inl IndexOutOfRange, \<lparr>sequenceIds = [7, 0]\<rparr>) \<and>
   ConnectionRequestPacket_Decode \<lparr>ClientId = 0, ProtocolVersion = 0\<rparr> [0, 8, 0, 0, 0, 0, 0, 0, 0, 0] =
     (Inl IndexOutOfRange, \<lparr>ClientId = 0, ProtocolVersion = 0\<rparr>)"
  by code_simp

text \<open>
  C2, on the code: \<open>Decode\<close> does not invert \<open>Encode\<close>. A ChannelOp encodes to two bytes
  and its \<open>Decode\<close> wants three; an Acknowledge of the ids 7 and 99 encodes as expected and
  its \<open>Decode\<close> panics; a ConnectionRequest with protocol version 1 decodes with version 0
  (\<open>ReadBytes(8)\<close> has drained the buffer, and \<open>ReadByte\<close> yields 0 at its end); a
  ConnectionAccepted whose server id has a byte 8 before its last byte panics.
\<close>

theorem Decode_of_Encode_differs:
  "ChannelOpPacket_Encode \<lparr>operation = CLOSE_CHANNEL, ChannelOpPacket.channel = 1\<rparr> = Inr [0x0B, 1] \<and>
   ChannelOpPacket_Decode \<lparr>operation = 0, ChannelOpPacket.channel = 0\<rparr> [0x0B, 1] =
     (Inr (Some (EncodeDecodeError ''Length of buffer mismatch (should be 3 bytes)'')),
      \<lparr>operation = 0, ChannelOpPacket.channel = 0\<rparr>) \<and>
   AcknowledgePacket_Encode \<lparr>sequenceIds = [7, 99]\<rparr> = Inr [0x0A, 2, 0, 0, 0, 7, 0, 0, 0, 99] \<and>
   AcknowledgePacket_Decode \<lparr>sequenceIds = []\<rparr> [0x0A, 2, 0, 0, 0, 7, 0, 0, 0, 99] =
     (Inl IndexOutOfRange, \<lparr>sequenceIds = [7, 0]\<rparr>) \<and>
   ConnectionRequestPacket_Encode \<lparr>ClientId = 42, ProtocolVersion = 1\<rparr> =
     Inr [0, 0, 0, 0, 0, 0, 0, 0, 42, 1] \<and>
   ConnectionRequestPacket_Decode \<lparr>ClientId = 0, ProtocolVersion = 0\<rparr> [0, 0, 0, 0, 0, 0, 0, 0, 42, 1] =
     (Inr None, \<lparr>ClientId = 42, ProtocolVersion = 0\<rparr>) \<and>
   ConnectionAcceptedPacket_Encode \<lparr>ServerId = 2048\<rparr> = Inr [1, 0, 0, 0, 0, 0, 0, 8, 0] \<and>
   ConnectionAcceptedPacket_Decode \<lparr>ServerId = 0\<rparr> [1, 0, 0, 0, 0, 0, 0, 8, 0] =
     (Inl IndexOutOfRange, \<lparr>ServerId = 0\<rparr>)"
  by code_simp

text \<open>
  C3, on the code: the id byte of ConnectionRequest is 0, not 1 (and those of
  ConnectionAccepted and ConnectionRejected are 1 and 2): the constants come from
  \<open>iota\<close>. \<open>ConnectionRequest{42, 0}\<close> encodes to ten bytes that start with 0, and the
  ten bytes of the scenario, which start with 1, are refused by \<open>Decode\<close>. The bytes that
  \<open>Encode\<close> does give decode back to the same struct. Acknowledge and ChannelOp write
  \<open>0x0A\<close> and \<open>0x0B\<close>.
\<close>

theorem ConnectionRequest_id_byte_is_zero:
  "ConnectionRequestPacket_Encode \<lparr>ClientId = 42, ProtocolVersion = 0\<rparr> =
     Inr [0x00, 0, 0, 0, 0, 0, 0, 0, 42, 0x00] \<and>
   ConnectionRequestPacket_Decode \<lparr>ClientId = 0, ProtocolVersion = 0\<rparr> [0x01, 0, 0, 0, 0, 0, 0, 0, 42, 0x00] =
     (Inr (Some (EncodeDecodeError ''Packet ID Mismatch, should be 0 (got 1)'')),
      \<lparr>ClientId = 0, ProtocolVersion = 0\<rparr>) \<and>
   ConnectionRequestPacket_Decode \<lparr>ClientId = 0, ProtocolVersion = 0\<rparr> [0x00, 0, 0, 0, 0, 0, 0, 0, 42, 0x00] =
     (Inr None, \<lparr>ClientId = 42, ProtocolVersion = 0\<rparr>) \<and>
   ConnectionAcceptedPacket_Encode \<lparr>ServerId = 0\<rparr> = Inr [0x01, 0, 0, 0, 0, 0, 0, 0, 0] \<and>
   ConnectionRejectedPacket_Encode \<lparr>reason = RATELIMITED\<rparr> = Inr [0x02, 2] \<and>
   AcknowledgePacket_Encode \<lparr>sequenceIds = [7]\<rparr> = Inr [0x0A, 1, 0, 0, 0, 7] \<and>
   ChannelOpPacket_Encode \<lparr>operation = OPEN_CHANNEL, ChannelOpPacket.channel = 0\<rparr> = Inr [0x0B, 0]"
  by code_simp

text \<open>
  C5, on the code: the lengths of ConnectionRequest (10), ConnectionAccepted (9),
  ConnectionRejected (2) and Acknowledge (\<open>2 + 4n\<close> for a non-empty list of \<open>n\<close> ids) are
  as claimed; ChannelOp encodes to 2 bytes, not the 3 of \<open>channelOperationLength\<close>,
  since \<open>Encode\<close> never writes \<open>operation\<close>.
\<close>

theorem Encode_lengths:
  "(\<exists>bs. ConnectionRequestPacket_Encode rq = Inr bs \<and> length bs = 10) \<and>
   (\<exists>bs. ConnectionAcceptedPacket_Encode ac = Inr bs \<and> length bs = 9) \<and>
   (\<exists>bs. ConnectionRejectedPacket_Encode rj = Inr bs \<and> length bs = 2) \<and>
   (\<exists>bs. AcknowledgePacket_Encode \<lparr>sequenceIds = x # xs\<rparr> = Inr bs \<and> length bs = 2 + 4 * length (x # xs)) \<and>
   (\<exists>bs. ChannelOpPacket_Encode co = Inr bs \<and> length bs = 2 \<and> int (length bs) \<noteq> channelOperationLength)"
  by (simp add: Encode_defs PutUint64_def AcknowledgePacket_Encode_def Let_def writeSequenceIds_concat
        length_concat_PutUint32 length_PutUint32 channelOperationLength_def)

subsection \<open>Container: fields follow flags\<close>

text \<open>
  C6 as stated fails, against the codec modelled from the specification, on a compressed
  packet: the bytes after the length prefix are the collaborator's output, not the payload,
  so the total length follows the compressed bytes. With a collaborator that stores the
  payload behind one marker byte, a compressed Container of payload \<open>[1, 2, 3]\<close> and no
  optional field takes 9 bytes, not the 8 of the formula over the payload.
\<close>

theorem ContainerPacket_Encode_compressed_length:
  "ContainerPacket_Encode (Cons 0)
     \<lparr>ContainerPacket.channel = 3, reliable = False, ordered = False, compressed = True,
      sequenceId = 0, orderedId = 0, payload = [1, 2, 3]\<rparr> = Inr [0x0C, 3, 4, 0, 4, 0, 1, 2, 3] \<and>
   int (length [0x0C, 3, 4, 0, 4, 0, 1, 2, 3 :: byte]) \<noteq> 1 + 1 + 1 + 4 * 0 + 2 * 0 + 2 + int (length [1, 2, 3 :: byte])"
  by (simp add: ContainerPacket_Encode_layout flagsByte_def wirePayload_def PutUint16_def ContainerPid_def)

text \<open>
  C6 (amended), against the codec modelled from the specification, for every collaborator
  pair and every Container, and so for each of the four combinations of \<open>reliable\<close> and
  \<open>ordered\<close>: the encoding is the id, the channel, the flags byte, the four bytes of
  \<open>sequenceId\<close> exactly when \<open>reliable\<close> is set, the two bytes of \<open>orderedId\<close> exactly when
  \<open>ordered\<close> is set, the two-byte length prefix and the payload bytes as they travel (the
  payload itself when \<open>compressed\<close> is unset, the collaborator's compressed bytes when it
  is set); its length is 1 + 1 + 1 + 4 [reliable] + 2 [ordered] + 2 + the length of those
  payload bytes, which for an uncompressed packet is the length of the payload; and
  decoding it succeeds with the same flags and channel, the same \<open>sequenceId\<close> when
  reliable, the same \<open>orderedId\<close> when ordered, and the same payload when the travelling bytes
  fit the 16-bit prefix and the collaborator's decompression undoes its compression.
\<close>

theorem ContainerPacket_flag_conditionality:
  "\<exists>bs p'. ContainerPacket_Encode compress p = Inr bs \<and>
     bs = ContainerPid # ContainerPacket.channel p #
          flagsByte (reliable p) (ordered p) (compressed p) #
          (if reliable p then PutUint32 (sequenceId p) else []) @
          (if ordered p then PutUint16 (orderedId p) else []) @
          PutUint16 (of_nat (length (wirePayload compress p))) @ wirePayload compress p \<and>
     int (length bs) = 1 + 1 + 1 + 4 * (if reliable p then 1 else 0) + 2 * (if ordered p then 1 else 0)
                       + 2 + int (length (wirePayload compress p)) \<and>
     (\<not> compressed p \<longrightarrow>
        int (length bs) = 1 + 1 + 1 + 4 * (if reliable p then 1 else 0) + 2 * (if ordered p then 1 else 0)
                          + 2 + int (length (payload p))) \<and>
     ContainerPacket_Decode decompress bs = Inr p' \<and>
     reliable p' = reliable p \<and> ordered p' = ordered p \<and> compressed p' = compressed p \<and>
     ContainerPacket.channel p' = ContainerPacket.channel p \<and>
     (reliable p \<longrightarrow> sequenceId p' = sequenceId p) \<and>
     (ordered p \<longrightarrow> orderedId p' = orderedId p) \<and>
     (length (wirePayload compress p) < 65536 \<and> decompress (compress (payload p)) = payload p \<longrightarrow>
        payload p' = payload p)"
proof -
  let ?sq = "if reliable p then PutUint32 (sequenceId p) else []"
  let ?oq = "if ordered p then PutUint16 (orderedId p) else []"
  let ?pl = "wirePayload compress p"
  let ?bs = "ContainerPid # ContainerPacket.channel p #
          flagsByte (reliable p) (ordered p) (compressed p) #
          ?sq @ ?oq @ PutUint16 (of_nat (length ?pl)) @ ?pl"
  let ?n = "unat (of_nat (length ?pl) :: uint16)"
  let ?p' = "\<lparr>ContainerPacket.channel = ContainerPacket.channel p, reliable = reliable p,
      ordered = ordered p, compressed = compressed p,
      sequenceId = (if reliable p then beUint32 ?sq else 0),
      orderedId = (if ordered p then beUint16 ?oq else 0),
      payload = (if compressed p then decompress (take ?n ?pl) else take ?n ?pl)\<rparr>"
  have enc: "ContainerPacket_Encode compress p = Inr ?bs"
    by (rule ContainerPacket_Encode_layout)
  have len: "int (length ?bs) = 1 + 1 + 1 + 4 * (if reliable p then 1 else 0)
      + 2 * (if ordered p then 1 else 0) + 2 + int (length ?pl)"
    by (simp add: length_PutUint32 length_PutUint16)
  have len': "\<not> compressed p \<longrightarrow> int (length ?bs) = 1 + 1 + 1 + 4 * (if reliable p then 1 else 0)
      + 2 * (if ordered p then 1 else 0) + 2 + int (length (payload p))"
    by (simp add: length_PutUint32 length_PutUint16 wirePayload_def)
  have "length ?sq = (if reliable p then 4 else 0)" "length ?oq = (if ordered p then 2 else 0)"
    by (simp_all add: length_PutUint32 length_PutUint16)
  then have dec: "ContainerPacket_Decode decompress ?bs = Inr ?p'"
    by (rule ContainerPacket_Decode_layout)
  have sq: "reliable p \<longrightarrow> sequenceId ?p' = sequenceId p"
    by (simp add: beUint32_PutUint32)
  have oq: "ordered p \<longrightarrow> orderedId ?p' = orderedId p"
    by (simp add: beUint16_PutUint16)
  have pl: "length ?pl < 65536 \<and> decompress (compress (payload p)) = payload p \<longrightarrow>
      payload ?p' = payload p"
    by (simp add: unat_of_nat_small wirePayload_def)
  have fl: "reliable ?p' = reliable p" "ordered ?p' = ordered p" "compressed ?p' = compressed p"
    "ContainerPacket.channel ?p' = ContainerPacket.channel p"
    by simp_all
  show ?thesis
  proof (intro exI conjI)
    show "ContainerPacket_Encode compress p = Inr ?bs" by (rule enc)
    show "?bs = ?bs" by (rule refl)
    show "int (length ?bs) = 1 + 1 + 1 + 4 * (if reliable p then 1 else 0)
      + 2 * (if ordered p then 1 else 0) + 2 + int (length ?pl)" by (rule len)
    show "\<not> compressed p \<longrightarrow> int (length ?bs) = 1 + 1 + 1 + 4 * (if reliable p then 1 else 0)
      + 2 * (if ordered p then 1 else 0) + 2 + int (length (payload p))" by (rule len')
    show "ContainerPacket_Decode decompress ?bs = Inr ?p'" by (rule dec)
    show "reliable ?p' = reliable p" "ordered ?p' = ordered p" "compressed ?p' = compressed p"
      "ContainerPacket.channel ?p' = ContainerPacket.channel p" by (rule fl)+
    show "reliable p \<longrightarrow> sequenceId ?p' = sequenceId p" by (rule sq)
    show "ordered p \<longrightarrow> orderedId ?p' = orderedId p" by (rule oq)
    show "length ?pl < 65536 \<and> decompress (compress (payload p)) = payload p \<longrightarrow>
      payload ?p' = payload p" by (rule pl)
  qed
qed

theorem ContainerPacket_flag_conditionality_witness:
  "(\<exists>bs p'. ContainerPacket_Encode (Cons 0)
       \<lparr>ContainerPacket.channel = 3, reliable = True, ordered = True, compressed = True,
        sequenceId = 258, orderedId = 9, payload = [1, 2, 3]\<rparr> = Inr bs \<and>
     int (length bs) = 15 \<and>
     ContainerPacket_Decode tl bs = Inr p' \<and>
     reliable p' \<and> ordered p' \<and> compressed p' \<and>
     sequenceId p' = 258 \<and> orderedId p' = 9 \<and> payload p' = [1, 2, 3]) \<and>
   (\<exists>bs p'. ContainerPacket_Encode (Cons 0)
       \<lparr>ContainerPacket.channel = 3, reliable = False, ordered = True, compressed = False,
        sequenceId = 258, orderedId = 9, payload = [1, 2, 3]\<rparr> = Inr bs \<and>
     int (length bs) = 1 + 1 + 1 + 2 + 2 + 3 \<and>
     ContainerPacket_Decode tl bs = Inr p' \<and>
     \<not> reliable p' \<and> ordered p' \<and> \<not> compressed p' \<and> orderedId p' = 9 \<and> payload p' = [1, 2, 3])"
proof (rule conjI)
  show "\<exists>bs p'. ContainerPacket_Encode (Cons 0)
       \<lparr>ContainerPacket.channel = 3, reliable = True, ordered = True, compressed = True,
        sequenceId = 258, orderedId = 9, payload = [1, 2, 3]\<rparr> = Inr bs \<and>
     int (length bs) = 15 \<and>
     ContainerPacket_Decode tl bs = Inr p' \<and>
     reliable p' \<and> ordered p' \<and> compressed p' \<and>
     sequenceId p' = 258 \<and> orderedId p' = 9 \<and> payload p' = [1, 2, 3]"
    using ContainerPacket_flag_conditionality [of "Cons 0"
        "\<lparr>ContainerPacket.channel = 3, reliable = True, ordered = True, compressed = True,
          sequenceId = 258, orderedId = 9, payload = [1, 2, 3]\<rparr>" tl]
    by (elim exE conjE) (simp add: wirePayload_def)
next
  show "\<exists>bs p'. ContainerPacket_Encode (Cons 0)
       \<lparr>ContainerPacket.channel = 3, reliable = False, ordered = True, compressed = False,
        sequenceId = 258, orderedId = 9, payload = [1, 2, 3]\<rparr> = Inr bs \<and>
     int (length bs) = 1 + 1 + 1 + 2 + 2 + 3 \<and>
     ContainerPacket_Decode tl bs = Inr p' \<and>
     \<not> reliable p' \<and> ordered p' \<and> \<not> compressed p' \<and> orderedId p' = 9 \<and> payload p' = [1, 2, 3]"
    using ContainerPacket_flag_conditionality [of "Cons 0"
        "\<lparr>ContainerPacket.channel = 3, reliable = False, ordered = True, compressed = False,
          sequenceId = 258, orderedId = 9, payload = [1, 2, 3]\<rparr>" tl]
    by (elim exE conjE) (simp add: wirePayload_def)
qed

end
